theory Spec2Isabelle
  imports Main
begin

chapter \<open>The hospital management front end: API client and page handlers\<close>

text \<open>
  The development follows the TypeScript sources: the API client module (token helpers,
  request interceptor, resource calls), and the handlers of the login, booking and
  patient-list pages. What the browser and the HTTP library provide (storage, dates,
  the transport) is modelled as far as the handlers use it.
\<close>

section \<open>Values that cross the JavaScript boundary\<close>

text \<open>
  Bodies of failed responses and the values stored in the pages' error slots are untyped
  at run time, so they are modelled as JSON-like values. Numbers are carried as
  integers: the handlers only test them for truthiness.
\<close>

datatype json =
    JUndefined
  | JNull
  | JBool bool
  | JNum int
  | JStr string
  | JArr "json list"
  | JObj "(string \<times> json) list"

text \<open>JavaScript truthiness, as tested by \<open>if (v)\<close>, \<open>!v\<close> and \<open>a || b\<close>.\<close>

fun truthy :: "json \<Rightarrow> bool" where
  "truthy JUndefined = False"
| "truthy JNull = False"
| "truthy (JBool b) = b"
| "truthy (JNum n) = (n \<noteq> 0)"
| "truthy (JStr s) = (s \<noteq> [])"
| "truthy (JArr _) = True"
| "truthy (JObj _) = True"

text \<open>\<open>a || b\<close>: the left operand when it is truthy, the right one otherwise.\<close>

definition js_or :: "json \<Rightarrow> json \<Rightarrow> json" where
  "js_or a b = (if truthy a then a else b)"

text \<open>
  \<open>v?.k\<close> for the keys the pages read (\<open>detail\<close>, \<open>message\<close>, \<open>error\<close>): the member
  of an object (the last one when a key is repeated, as \<open>JSON.parse\<close> keeps it),
  \<open>undefined\<close> on \<open>null\<close>, \<open>undefined\<close> and on values without such a member.
\<close>

fun opt_field :: "json \<Rightarrow> string \<Rightarrow> json" where
  "opt_field (JObj kvs) k = (case map_of (rev kvs) k of Some v \<Rightarrow> v | None \<Rightarrow> JUndefined)"
| "opt_field _ k = JUndefined"

text \<open>
  What a \<open>catch\<close> clause can receive: the HTTP client's error, carrying the body of the
  failed response when there was a response, the \<open>RangeError\<close> of
  \<open>Date.prototype.toISOString\<close>, or the \<open>TypeError\<close> of a member access on \<open>null\<close>.
\<close>

datatype thrown = AxiosError "json option" | RangeError | TypeError

text \<open>\<open>error.response?.data\<close>\<close>

fun response_data :: "thrown \<Rightarrow> json" where
  "response_data (AxiosError (Some d)) = d"
| "response_data (AxiosError None) = JUndefined"
| "response_data RangeError = JUndefined"
| "response_data TypeError = JUndefined"

section \<open>Client-side storage and \<open>tokenUtils\<close>\<close>

text \<open>
  \<open>localStorage\<close> is a key-value store of strings; \<open>getItem\<close> answers \<open>null\<close>
  (here \<open>None\<close>) for a key that is not stored. The store is taken to be available
  and unbounded: a browser's quota and privacy failures are not part of it.
\<close>

type_synonym storage = "string \<rightharpoonup> string"

definition setItem :: "string \<Rightarrow> string \<Rightarrow> storage \<Rightarrow> storage" where
  "setItem k v ls = ls(k \<mapsto> v)"

definition getItem :: "storage \<Rightarrow> string \<Rightarrow> string option" where
  "getItem ls k = ls k"

definition removeItem :: "string \<Rightarrow> storage \<Rightarrow> storage" where
  "removeItem k ls = ls(k := None)"

definition setTokens :: "string \<Rightarrow> string \<Rightarrow> storage \<Rightarrow> storage" where
  "setTokens access refresh ls =
     setItem ''refreshToken'' refresh (setItem ''authToken'' access ls)"

definition getAccessToken :: "storage \<Rightarrow> string option" where
  "getAccessToken ls = getItem ls ''authToken''"

definition getRefreshToken :: "storage \<Rightarrow> string option" where
  "getRefreshToken ls = getItem ls ''refreshToken''"

definition removeTokens :: "storage \<Rightarrow> storage" where
  "removeTokens ls = removeItem ''refreshToken'' (removeItem ''authToken'' ls)"

text \<open>\<open>!!token\<close> for \<open>token : string | null\<close>: neither \<open>null\<close> nor the empty string.\<close>

definition isAuthenticated :: "storage \<Rightarrow> bool" where
  "isAuthenticated ls =
     (case getItem ls ''authToken'' of None \<Rightarrow> False | Some token \<Rightarrow> token \<noteq> [])"

section \<open>The HTTP client and its request interceptor\<close>

text \<open>
  A request as the client hands it to the transport. The path is relative to the
  configured base URL; \<open>data\<close> is \<open>None\<close> for a call without a body.
\<close>

record 'b request_config =
  http_method :: string
  url :: string
  withCredentials :: bool
  headers :: "string \<rightharpoonup> string"
  data :: "'b option"

text \<open>The instance defaults of \<open>axios.create\<close>, merged into every request.\<close>

definition apiClient_config :: "string \<Rightarrow> string \<Rightarrow> 'b option \<Rightarrow> 'b request_config" where
  "apiClient_config m u d =
     \<lparr> http_method = m, url = u, withCredentials = True,
       headers = [''Content-Type'' \<mapsto> ''application/json''], data = d \<rparr>"

text \<open>The fulfilled handler of \<open>apiClient.interceptors.request.use\<close>.\<close>

definition request_interceptor :: "storage \<Rightarrow> 'b request_config \<Rightarrow> 'b request_config" where
  "request_interceptor ls config =
     (case getItem ls ''authToken'' of
        None \<Rightarrow> config
      | Some token \<Rightarrow>
          if token \<noteq> []
          then config\<lparr> headers := (headers config)(''Authorization'' \<mapsto> ''Bearer '' @ token) \<rparr>
          else config)"

text \<open>
  The transport stands for the network and the backend: it answers a request with the
  body of a 2xx response or with the error the client raises.
\<close>

type_synonym ('b, 'r) transport = "'b request_config \<Rightarrow> thrown + 'r"

text \<open>
  The request that leaves the client for a call such as \<open>apiClient.get(url)\<close> or
  \<open>apiClient.post(url, data)\<close>: the instance defaults, then the interceptor.
\<close>

definition outgoing :: "storage \<Rightarrow> string \<Rightarrow> string \<Rightarrow> 'b option \<Rightarrow> 'b request_config" where
  "outgoing ls m u d = request_interceptor ls (apiClient_config m u d)"

text \<open>
  One round trip: the interceptor runs, the transport is asked once, and its answer is
  the call's result. The request sent is returned with it, for the pages' traces.
\<close>

definition apiClient ::
  "storage \<Rightarrow> ('b, 'r) transport \<Rightarrow> string \<Rightarrow> string \<Rightarrow> 'b option \<Rightarrow> 'b request_config \<times> (thrown + 'r)"
where
  "apiClient ls net m u d = (let config = outgoing ls m u d in (config, net config))"

section \<open>The resource calls used by the pages\<close>

text \<open>
  Each call is one request through \<open>apiClient\<close>; its result is the response body, cast
  to the declared type without any check. The rows of a listing are never inspected by
  the client, so their type is a parameter.
\<close>

record 'p PatientsResponse =
  patients :: "'p list"
  patient_count :: int

record 'd DoctorsResponse =
  doctors :: "'d list"
  doctor_count :: int

record AuthResponse =
  access :: string
  refresh :: string

record credentials =
  username :: string
  password :: string

text \<open>\<open>Omit<Appointment, 'appointment_id'>\<close>; an absent \<open>reason\<close> is \<open>None\<close>.\<close>

record appointment_data =
  patient :: int
  doctor :: int
  date :: string
  time :: string
  reason :: "string option"
  status :: bool

definition authAPI_login ::
  "storage \<Rightarrow> (credentials, AuthResponse) transport \<Rightarrow> string \<Rightarrow> string
   \<Rightarrow> credentials request_config \<times> (thrown + AuthResponse)"
where
  "authAPI_login ls net u p =
     apiClient ls net ''post'' ''/api/token/'' (Some \<lparr> username = u, password = p \<rparr>)"

definition patientsAPI_getAll ::
  "storage \<Rightarrow> ('b, 'p PatientsResponse) transport
   \<Rightarrow> 'b request_config \<times> (thrown + 'p PatientsResponse)"
where
  "patientsAPI_getAll ls net = apiClient ls net ''get'' ''/patients/'' None"

definition doctorsAPI_getAll ::
  "storage \<Rightarrow> ('b, 'd DoctorsResponse) transport
   \<Rightarrow> 'b request_config \<times> (thrown + 'd DoctorsResponse)"
where
  "doctorsAPI_getAll ls net = apiClient ls net ''get'' ''/staff/doctors'' None"

definition patientsAPI_appointments_create ::
  "storage \<Rightarrow> (appointment_data, 'r) transport \<Rightarrow> appointment_data
   \<Rightarrow> appointment_data request_config \<times> (thrown + 'r)"
where
  "patientsAPI_appointments_create ls net appointmentData =
     apiClient ls net ''post'' ''/patients/appointments'' (Some appointmentData)"

section \<open>Dates\<close>

text \<open>
  A \<open>Date\<close> holds a time value, the milliseconds since 1970-01-01T00:00:00Z, or is an
  Invalid Date. \<open>toISOString\<close> reads the time value in UTC; \<open>getFullYear\<close>,
  \<open>getMonth\<close> and \<open>getDate\<close> read it in local time, which is the time value plus
  the offset of the environment's zone at that instant (a parameter \<open>ltza\<close>, in
  milliseconds, positive east of Greenwich).
\<close>

datatype jsdate = TimeValue int | InvalidDate

definition msPerDay :: int where
  "msPerDay = 86400000"

definition Day :: "int \<Rightarrow> int" where
  "Day t = t div msPerDay"

definition LocalTime :: "(int \<Rightarrow> int) \<Rightarrow> int \<Rightarrow> int" where
  "LocalTime ltza t = t + ltza t"

text \<open>
  The proleptic Gregorian calendar: the day number of a calendar date and the calendar
  date (year, month 1..12, day of month) of a day number, day 0 being 1970-01-01.
  Years are counted from March inside 400-year eras of 146097 days.
\<close>

definition days_from_civil :: "int \<Rightarrow> int \<Rightarrow> int \<Rightarrow> int" where
  "days_from_civil y m d =
     (let y' = (if m \<le> 2 then y - 1 else y);
          era = y' div 400;
          yoe = y' - era * 400;
          doy = (153 * (if m > 2 then m - 3 else m + 9) + 2) div 5 + d - 1;
          doe = yoe * 365 + yoe div 4 - yoe div 100 + doy
      in era * 146097 + doe - 719468)"

definition civil_from_days :: "int \<Rightarrow> int \<times> int \<times> int" where
  "civil_from_days z =
     (let z' = z + 719468;
          era = z' div 146097;
          doe = z' - era * 146097;
          yoe = (doe - doe div 1460 + doe div 36524 - doe div 146096) div 365;
          doy = doe - (365 * yoe + yoe div 4 - yoe div 100);
          mp = (5 * doy + 2) div 153;
          d = doy - (153 * mp + 2) div 5 + 1;
          m = (if mp < 10 then mp + 3 else mp - 9)
      in (if m \<le> 2 then yoe + era * 400 + 1 else yoe + era * 400, m, d))"

text \<open>Decimal digits, zero-padded to a fixed width.\<close>

definition digit_char :: "int \<Rightarrow> char" where
  "digit_char n = ''0123456789'' ! nat (n mod 10)"

definition pad2 :: "int \<Rightarrow> string" where
  "pad2 n = [digit_char (n div 10), digit_char n]"

definition pad3 :: "int \<Rightarrow> string" where
  "pad3 n = [digit_char (n div 100), digit_char (n div 10), digit_char n]"

definition pad4 :: "int \<Rightarrow> string" where
  "pad4 n = [digit_char (n div 1000), digit_char (n div 100), digit_char (n div 10), digit_char n]"

definition pad6 :: "int \<Rightarrow> string" where
  "pad6 n = [digit_char (n div 100000), digit_char (n div 10000), digit_char (n div 1000),
             digit_char (n div 100), digit_char (n div 10), digit_char n]"

text \<open>
  The year of the ISO format: four digits for the years 0 to 9999, otherwise a sign and
  six digits.
\<close>

definition year_string :: "int \<Rightarrow> string" where
  "year_string y =
     (if 0 \<le> y \<and> y \<le> 9999 then pad4 y
      else (if y < 0 then CHR ''-'' else CHR ''+'') # pad6 \<bar>y\<bar>)"

definition iso_date :: "int \<times> int \<times> int \<Rightarrow> string" where
  "iso_date ymd = (case ymd of (y, m, d) \<Rightarrow> year_string y @ ''-'' @ pad2 m @ ''-'' @ pad2 d)"

definition iso_time :: "int \<Rightarrow> string" where
  "iso_time w =
     pad2 (w div 3600000) @ '':'' @ pad2 (w div 60000 mod 60) @ '':''
       @ pad2 (w div 1000 mod 60) @ ''.'' @ pad3 (w mod 1000)"

text \<open>\<open>Date.prototype.toISOString\<close>: a \<open>RangeError\<close> on an Invalid Date.\<close>

fun toISOString :: "jsdate \<Rightarrow> thrown + string" where
  "toISOString InvalidDate = Inl RangeError"
| "toISOString (TimeValue t) =
     Inr (iso_date (civil_from_days (Day t)) @ ''T'' @ iso_time (t mod msPerDay) @ ''Z'')"

text \<open>\<open>String.prototype.split\<close> with a one-character separator: never an empty array.\<close>

fun split_on :: "char \<Rightarrow> string \<Rightarrow> string list" where
  "split_on c [] = [[]]"
| "split_on c (x # xs) =
     (if x = c then [] # split_on c xs
      else (case split_on c xs of [] \<Rightarrow> [[x]] | w # ws \<Rightarrow> (x # w) # ws))"

text \<open>
  Numbers that may be \<open>NaN\<close> (\<open>None\<close>), with the three operations \<open>calculateAge\<close>
  uses: every comparison with \<open>NaN\<close> is false.
\<close>

type_synonym number = "int option"

definition num_sub :: "number \<Rightarrow> number \<Rightarrow> number" where
  "num_sub a b = (case a of None \<Rightarrow> None | Some x \<Rightarrow> (case b of None \<Rightarrow> None | Some y \<Rightarrow> Some (x - y)))"

definition num_lt :: "number \<Rightarrow> number \<Rightarrow> bool" where
  "num_lt a b = (case a of None \<Rightarrow> False | Some x \<Rightarrow> (case b of None \<Rightarrow> False | Some y \<Rightarrow> x < y))"

definition num_eq :: "number \<Rightarrow> number \<Rightarrow> bool" where
  "num_eq a b = (case a of None \<Rightarrow> False | Some x \<Rightarrow> (case b of None \<Rightarrow> False | Some y \<Rightarrow> x = y))"

fun getFullYear :: "(int \<Rightarrow> int) \<Rightarrow> jsdate \<Rightarrow> number" where
  "getFullYear ltza InvalidDate = None"
| "getFullYear ltza (TimeValue t) =
     (case civil_from_days (Day (LocalTime ltza t)) of (y, m, d) \<Rightarrow> Some y)"

text \<open>\<open>getMonth\<close> counts from 0 (January).\<close>

fun getMonth :: "(int \<Rightarrow> int) \<Rightarrow> jsdate \<Rightarrow> number" where
  "getMonth ltza InvalidDate = None"
| "getMonth ltza (TimeValue t) =
     (case civil_from_days (Day (LocalTime ltza t)) of (y, m, d) \<Rightarrow> Some (m - 1))"

fun getDate :: "(int \<Rightarrow> int) \<Rightarrow> jsdate \<Rightarrow> number" where
  "getDate ltza InvalidDate = None"
| "getDate ltza (TimeValue t) =
     (case civil_from_days (Day (LocalTime ltza t)) of (y, m, d) \<Rightarrow> Some d)"

text \<open>The shape \<open>YYYY-MM-DD\<close>: ten characters, digits around two hyphens.\<close>

definition is_digit :: "char \<Rightarrow> bool" where
  "is_digit c = (c \<in> set ''0123456789'')"


section \<open>The patient list: age from the birth date\<close>

text \<open>
  \<open>calculateAge\<close>, with the environment made explicit: the engine's string parser
  behind \<open>new Date(dateOfBirth)\<close> (a parameter, \<open>parseDate\<close>), the zone offset
  \<open>ltza\<close>, and the time value \<open>now\<close> that \<open>new Date()\<close> reads from the system clock.
  The language fixes the parser on date-only strings \<open>YYYY-MM-DD\<close>: midnight UTC of
  that day, that is \<open>days_from_civil y m d * msPerDay\<close>; what it does with other
  strings is left to the parameter.
\<close>

definition calculateAge ::
  "(string \<Rightarrow> jsdate) \<Rightarrow> (int \<Rightarrow> int) \<Rightarrow> int \<Rightarrow> string \<Rightarrow> number"
where
  "calculateAge parseDate ltza now dateOfBirth =
     (let birth = parseDate dateOfBirth;
          today = TimeValue now;
          age = num_sub (getFullYear ltza today) (getFullYear ltza birth);
          monthDiff = num_sub (getMonth ltza today) (getMonth ltza birth)
      in if num_lt monthDiff (Some 0)
            \<or> (num_eq monthDiff (Some 0) \<and> num_lt (getDate ltza today) (getDate ltza birth))
         then num_sub age (Some 1)
         else age)"

section \<open>Page handlers\<close>

text \<open>
  A handler runs against the page's component state, the client-side storage and a trace
  of what it does to the outside: requests handed to the transport, alerts, navigation
  and console output, in order. State fields carry the page's initials (\<open>ba\<close>, \<open>lg\<close>,
  \<open>pt\<close>) before the source's names. A handler reads the state of the render it was
  created in and queues its updates, so reads go to the state it was called with.
\<close>

datatype 'b effect =
    Request "'b request_config"
  | Alert string
  | Navigate string
  | ConsoleError string

record ('s, 'b) world =
  page :: 's
  store :: storage
  trace :: "'b effect list"

definition set_page :: "('s \<Rightarrow> 's) \<Rightarrow> ('s, 'b) world \<Rightarrow> ('s, 'b) world" where
  "set_page f w = w\<lparr> page := f (page w) \<rparr>"

definition emit :: "'b effect \<Rightarrow> ('s, 'b) world \<Rightarrow> ('s, 'b) world" where
  "emit e w = w\<lparr> trace := trace w @ [e] \<rparr>"

text \<open>
  \<open>try { body } catch (error) { handler } finally { cleanup }\<close>. The body stops at the
  first throw, keeping what it did before; the cleanup runs after the body when nothing
  was thrown and after the handler otherwise.
\<close>

definition try_catch_finally ::
  "('w \<Rightarrow> thrown option \<times> 'w) \<Rightarrow> (thrown \<Rightarrow> 'w \<Rightarrow> 'w) \<Rightarrow> ('w \<Rightarrow> 'w) \<Rightarrow> 'w \<Rightarrow> 'w"
where
  "try_catch_finally body handler cleanup w =
     (case body w of
        (None, w') \<Rightarrow> cleanup w'
      | (Some e, w') \<Rightarrow> cleanup (handler e w'))"

text \<open>
  \<open>String.prototype.trim\<close>. A string is a list of 8-bit code units; the white space
  and line terminators among them are TAB, LF, VT, FF, CR, SPACE and NO-BREAK SPACE.
\<close>

definition is_ws :: "char \<Rightarrow> bool" where
  "is_ws c = (c \<in> set [CHR 0x09, CHR 0x0A, CHR 0x0B, CHR 0x0C, CHR 0x0D, CHR 0x20, CHR 0xA0])"

definition trim :: "string \<Rightarrow> string" where
  "trim s = rev (dropWhile is_ws (rev (dropWhile is_ws s)))"

text \<open>\<open>!v\<close> for \<open>v : number | null\<close> holding an identifier: \<open>null\<close> and \<open>0\<close> are falsy.\<close>

definition falsy_number :: "int option \<Rightarrow> bool" where
  "falsy_number v = (case v of None \<Rightarrow> True | Some n \<Rightarrow> n = 0)"

subsection \<open>BookAppointment\<close>

record ('p, 'd) booking =
  ba_selectedPatient :: "int option"
  ba_selectedDoctor :: "int option"
  ba_date :: "jsdate option"
  ba_timeStr :: string
  ba_reason :: string
  ba_patients :: "'p list"
  ba_doctors :: "'d list"
  ba_loading :: bool
  ba_submitting :: bool
  ba_error :: json
  ba_patientError :: string
  ba_doctorError :: string
  ba_dateError :: string
  ba_timeError :: string

text \<open>
  \<open>loadData\<close>: both listings are requested before either answer is awaited; the body
  throws when one of them fails, and the handler does not look at the error.
\<close>

definition loadData_try ::
  "(appointment_data, 'p PatientsResponse) transport
   \<Rightarrow> (appointment_data, 'd DoctorsResponse) transport
   \<Rightarrow> (('p, 'd) booking, appointment_data) world
   \<Rightarrow> thrown option \<times> (('p, 'd) booking, appointment_data) world"
where
  "loadData_try netP netD w =
     (case patientsAPI_getAll (store w) netP of (reqP, patientsResponse) \<Rightarrow>
       (case doctorsAPI_getAll (store w) netD of (reqD, doctorsResponse) \<Rightarrow>
         (let w1 = emit (Request reqD) (emit (Request reqP) w) in
           (case patientsResponse of
              Inl e \<Rightarrow> (Some e, w1)
            | Inr pr \<Rightarrow>
                (case doctorsResponse of
                   Inl e \<Rightarrow> (Some e, w1)
                 | Inr dr \<Rightarrow>
                     (None,
                      set_page (\<lambda>s. s\<lparr> ba_patients := patients pr, ba_doctors := doctors dr \<rparr>)
                        w1))))))"

definition loadData_catch ::
  "thrown \<Rightarrow> (('p, 'd) booking, 'b) world \<Rightarrow> (('p, 'd) booking, 'b) world"
where
  "loadData_catch e w =
     set_page (\<lambda>s. s\<lparr> ba_error := JStr ''Failed to load patients and doctors'' \<rparr>)
       (emit (ConsoleError ''Error loading data:'') w)"

definition loadData_finally :: "(('p, 'd) booking, 'b) world \<Rightarrow> (('p, 'd) booking, 'b) world" where
  "loadData_finally w = set_page (\<lambda>s. s\<lparr> ba_loading := False \<rparr>) w"

definition loadData ::
  "(appointment_data, 'p PatientsResponse) transport
   \<Rightarrow> (appointment_data, 'd DoctorsResponse) transport
   \<Rightarrow> (('p, 'd) booking, appointment_data) world
   \<Rightarrow> (('p, 'd) booking, appointment_data) world"
where
  "loadData netP netD w =
     try_catch_finally (loadData_try netP netD) loadData_catch loadData_finally
       (set_page (\<lambda>s. s\<lparr> ba_loading := True \<rparr>) w)"

text \<open>
  The \<open>try\<close> block of \<open>handleSubmit\<close>. It is entered only after validation, where
  patient, doctor and date are not \<open>null\<close>; the last case is the \<open>TypeError\<close> of
  \<open>date!.toISOString()\<close> on \<open>null\<close>.
\<close>

definition handleSubmit_try ::
  "(appointment_data, 'r) transport \<Rightarrow> ('p, 'd) booking
   \<Rightarrow> (('p, 'd) booking, appointment_data) world
   \<Rightarrow> thrown option \<times> (('p, 'd) booking, appointment_data) world"
where
  "handleSubmit_try net s w =
     (case (ba_selectedPatient s, ba_selectedDoctor s, ba_date s) of
        (Some selectedPatient, Some selectedDoctor, Some d) \<Rightarrow>
          (case toISOString d of
             Inl e \<Rightarrow> (Some e, w)
           | Inr isoString \<Rightarrow>
               (let formattedDate = hd (split_on CHR ''T'' isoString) in
                case patientsAPI_appointments_create (store w) net
                       \<lparr> patient = selectedPatient,
                         doctor = selectedDoctor,
                         date = formattedDate,
                         time = ba_timeStr s,
                         reason = (if ba_reason s \<noteq> [] then Some (ba_reason s) else None),
                         status = False \<rparr>
                of (req, res) \<Rightarrow>
                  (case res of
                     Inl e \<Rightarrow> (Some e, emit (Request req) w)
                   | Inr created \<Rightarrow>
                       (None,
                        emit (Navigate ''/appointments'')
                          (emit (Alert ''Appointment booked successfully!'')
                             (emit (Request req) w))))))
      | _ \<Rightarrow> (Some TypeError, w))"

definition handleSubmit_catch ::
  "thrown \<Rightarrow> (('p, 'd) booking, 'b) world \<Rightarrow> (('p, 'd) booking, 'b) world"
where
  "handleSubmit_catch e w =
     set_page (\<lambda>s. s\<lparr> ba_error :=
         js_or (js_or (opt_field (response_data e) ''error'')
                      (opt_field (response_data e) ''message''))
               (JStr ''Failed to book appointment. Please try again.'') \<rparr>)
       (emit (ConsoleError ''Error booking appointment:'') w)"

definition handleSubmit_finally ::
  "(('p, 'd) booking, 'b) world \<Rightarrow> (('p, 'd) booking, 'b) world"
where
  "handleSubmit_finally w = set_page (\<lambda>s. s\<lparr> ba_submitting := False \<rparr>) w"

text \<open>The four checks of \<open>handleSubmit\<close>, each setting or clearing its field's message.\<close>

definition handleSubmit_validate ::
  "('p, 'd) booking \<Rightarrow> (('p, 'd) booking, 'b) world \<Rightarrow> bool \<times> (('p, 'd) booking, 'b) world"
where
  "handleSubmit_validate s w =
     (let isValid = True;
          (isValid, w) =
            (if falsy_number (ba_selectedPatient s)
             then (False, set_page (\<lambda>s. s\<lparr> ba_patientError := ''Patient is required'' \<rparr>) w)
             else (isValid, set_page (\<lambda>s. s\<lparr> ba_patientError := [] \<rparr>) w));
          (isValid, w) =
            (if falsy_number (ba_selectedDoctor s)
             then (False, set_page (\<lambda>s. s\<lparr> ba_doctorError := ''Doctor is required'' \<rparr>) w)
             else (isValid, set_page (\<lambda>s. s\<lparr> ba_doctorError := [] \<rparr>) w));
          (isValid, w) =
            (if ba_date s = None
             then (False, set_page (\<lambda>s. s\<lparr> ba_dateError := ''Date is required'' \<rparr>) w)
             else (isValid, set_page (\<lambda>s. s\<lparr> ba_dateError := [] \<rparr>) w));
          (isValid, w) =
            (if trim (ba_timeStr s) = []
             then (False, set_page (\<lambda>s. s\<lparr> ba_timeError := ''Time is required'' \<rparr>) w)
             else (isValid, set_page (\<lambda>s. s\<lparr> ba_timeError := [] \<rparr>) w))
      in (isValid, w))"

definition handleSubmit ::
  "(appointment_data, 'r) transport \<Rightarrow> (('p, 'd) booking, appointment_data) world
   \<Rightarrow> (('p, 'd) booking, appointment_data) world"
where
  "handleSubmit net w =
     (case handleSubmit_validate (page w) w of (isValid, w1) \<Rightarrow>
        if isValid
        then try_catch_finally (handleSubmit_try net (page w)) handleSubmit_catch
               handleSubmit_finally
               (set_page (\<lambda>s. s\<lparr> ba_submitting := True, ba_error := JStr [] \<rparr>) w1)
        else w1)"

subsection \<open>Login\<close>

record login =
  lg_email :: string
  lg_password :: string
  lg_emailError :: string
  lg_passwordError :: string
  lg_loginError :: json
  lg_isLoading :: bool

definition onButtonClick_try ::
  "(credentials, AuthResponse) transport \<Rightarrow> login \<Rightarrow> (login, credentials) world
   \<Rightarrow> thrown option \<times> (login, credentials) world"
where
  "onButtonClick_try net s w =
     (case authAPI_login (store w) net (lg_email s) (lg_password s) of (req, res) \<Rightarrow>
        (case res of
           Inl e \<Rightarrow> (Some e, emit (Request req) w)
         | Inr response \<Rightarrow>
             (None,
              emit (Navigate ''/dashboard'')
                ((emit (Request req) w)
                   \<lparr> store := setTokens (access response) (refresh response) (store w) \<rparr>))))"

definition onButtonClick_catch :: "thrown \<Rightarrow> (login, 'b) world \<Rightarrow> (login, 'b) world" where
  "onButtonClick_catch e w =
     set_page (\<lambda>s. s\<lparr> lg_loginError :=
         js_or (js_or (opt_field (response_data e) ''detail'')
                      (opt_field (response_data e) ''message''))
               (JStr ''Invalid credentials. Please try again.'') \<rparr>)
       (emit (ConsoleError ''Login failed:'') w)"

definition onButtonClick_finally :: "(login, 'b) world \<Rightarrow> (login, 'b) world" where
  "onButtonClick_finally w = set_page (\<lambda>s. s\<lparr> lg_isLoading := False \<rparr>) w"

definition onButtonClick_validate :: "login \<Rightarrow> (login, 'b) world \<Rightarrow> bool \<times> (login, 'b) world" where
  "onButtonClick_validate s w =
     (let isValid = True;
          w = set_page (\<lambda>s. s\<lparr> lg_loginError := JStr [] \<rparr>) w;
          (isValid, w) =
            (if trim (lg_email s) = []
             then (False, set_page (\<lambda>s. s\<lparr> lg_emailError := ''Email is required'' \<rparr>) w)
             else (isValid, set_page (\<lambda>s. s\<lparr> lg_emailError := [] \<rparr>) w));
          (isValid, w) =
            (if trim (lg_password s) = []
             then (False, set_page (\<lambda>s. s\<lparr> lg_passwordError := ''Password is required'' \<rparr>) w)
             else (isValid, set_page (\<lambda>s. s\<lparr> lg_passwordError := [] \<rparr>) w))
      in (isValid, w))"

definition onButtonClick ::
  "(credentials, AuthResponse) transport \<Rightarrow> (login, credentials) world
   \<Rightarrow> (login, credentials) world"
where
  "onButtonClick net w =
     (case onButtonClick_validate (page w) w of (isValid, w1) \<Rightarrow>
        if isValid
        then try_catch_finally (onButtonClick_try net (page w)) onButtonClick_catch
               onButtonClick_finally
               (set_page (\<lambda>s. s\<lparr> lg_isLoading := True \<rparr>) w1)
        else w1)"

subsection \<open>Patients\<close>

record 'p patients_page =
  pt_patients :: "'p list"
  pt_loading :: bool
  pt_error :: string

definition fetchPatients_try ::
  "('b, 'p PatientsResponse) transport \<Rightarrow> ('p patients_page, 'b) world
   \<Rightarrow> thrown option \<times> ('p patients_page, 'b) world"
where
  "fetchPatients_try net w =
     (case patientsAPI_getAll (store w) net of (req, res) \<Rightarrow>
        (case res of
           Inl e \<Rightarrow> (Some e, emit (Request req) w)
         | Inr response \<Rightarrow>
             (None, set_page (\<lambda>s. s\<lparr> pt_patients := patients response \<rparr>) (emit (Request req) w))))"

definition fetchPatients_catch ::
  "thrown \<Rightarrow> ('p patients_page, 'b) world \<Rightarrow> ('p patients_page, 'b) world"
where
  "fetchPatients_catch e w =
     set_page (\<lambda>s. s\<lparr> pt_error := ''Failed to fetch patients. Please try again.'' \<rparr>)
       (emit (ConsoleError ''Error fetching patients:'') w)"

definition fetchPatients_finally :: "('p patients_page, 'b) world \<Rightarrow> ('p patients_page, 'b) world" where
  "fetchPatients_finally w = set_page (\<lambda>s. s\<lparr> pt_loading := False \<rparr>) w"

definition fetchPatients ::
  "('b, 'p PatientsResponse) transport \<Rightarrow> ('p patients_page, 'b) world
   \<Rightarrow> ('p patients_page, 'b) world"
where
  "fetchPatients net w =
     try_catch_finally (fetchPatients_try net) fetchPatients_catch fetchPatients_finally
       (set_page (\<lambda>s. s\<lparr> pt_loading := True, pt_error := [] \<rparr>) w)"

subsection \<open>The state each page mounts with\<close>

text \<open>The initial values of the \<open>useState\<close> calls, in a world with nothing traced yet.\<close>

definition BookAppointment_init :: "('p, 'd) booking" where
  "BookAppointment_init =
     \<lparr> ba_selectedPatient = None, ba_selectedDoctor = None, ba_date = None,
       ba_timeStr = [], ba_reason = [], ba_patients = [], ba_doctors = [],
       ba_loading = False, ba_submitting = False, ba_error = JStr [],
       ba_patientError = [], ba_doctorError = [], ba_dateError = [], ba_timeError = [] \<rparr>"

definition Login_init :: login where
  "Login_init =
     \<lparr> lg_email = [], lg_password = [], lg_emailError = [], lg_passwordError = [],
       lg_loginError = JStr [], lg_isLoading = False \<rparr>"

definition Patients_init :: "'p patients_page" where
  "Patients_init = \<lparr> pt_patients = [], pt_loading = False, pt_error = [] \<rparr>"

definition mounted :: "'s \<Rightarrow> storage \<Rightarrow> ('s, 'b) world" where
  "mounted s ls = \<lparr> page = s, store = ls, trace = [] \<rparr>"

section \<open>Token helpers: round trip and presence\<close>

text \<open>
  C5. For every pair of strings, after \<open>setTokens access refresh\<close> the two getters return
  exactly \<open>access\<close> and \<open>refresh\<close>; after \<open>removeTokens\<close> both getters return the absent
  value, whatever was stored before.
\<close>

theorem tokens_round_trip:
  "getAccessToken (setTokens a r ls) = Some a
   \<and> getRefreshToken (setTokens a r ls) = Some r
   \<and> getAccessToken (removeTokens ls) = None
   \<and> getRefreshToken (removeTokens ls) = None"
  by (simp add: getAccessToken_def getRefreshToken_def setTokens_def removeTokens_def
      setItem_def getItem_def removeItem_def)

text \<open>
  C8, as the code has it. \<open>isAuthenticated\<close> is true exactly when a non-empty access
  token is stored; nothing else about the token is inspected, so storing any non-empty
  string makes it true. A stored empty string counts as no token.
\<close>

theorem isAuthenticated_nonempty_token:
  "isAuthenticated ls = (\<exists>t. getAccessToken ls = Some t \<and> t \<noteq> [])
   \<and> isAuthenticated (setTokens a r ls) = (a \<noteq> [])"
  by (simp add: isAuthenticated_def getAccessToken_def setTokens_def setItem_def getItem_def
      split: option.split)

text \<open>
  C8 as stated fails: after \<open>setTokens('', 'r')\<close> an access token is present in
  storage (the getter returns it, not the absent value), yet \<open>isAuthenticated\<close> is false.
\<close>

theorem isAuthenticated_presence_counterexample:
  "\<not> (isAuthenticated (setTokens [] ''r'' Map.empty)
        = (getAccessToken (setTokens [] ''r'' Map.empty) \<noteq> None))"
  by (simp add: isAuthenticated_def getAccessToken_def setTokens_def setItem_def getItem_def)

text \<open>
  C10. When the stored access token is the empty string, \<open>isAuthenticated\<close> is false and
  the interceptor leaves the request as the client built it, with no \<open>Authorization\<close>
  header, although \<open>getAccessToken\<close> returns the empty string and not the absent value.
\<close>

theorem empty_token_treated_as_absent:
  assumes "getAccessToken ls = Some []"
  shows "\<not> isAuthenticated ls
    \<and> headers (outgoing ls m u d) ''Authorization'' = None
    \<and> outgoing ls m u d = apiClient_config m u d
    \<and> getAccessToken ls \<noteq> None"
  using assms
  by (simp add: isAuthenticated_def getAccessToken_def outgoing_def request_interceptor_def
      apiClient_config_def)

theorem empty_token_treated_as_absent_witness:
  "getAccessToken (setTokens [] ''r'' Map.empty) = Some []
   \<and> \<not> isAuthenticated (setTokens [] ''r'' Map.empty)
   \<and> headers (outgoing (setTokens [] ''r'' Map.empty) ''get'' ''/patients/'' (None :: unit option))
        ''Authorization'' = None"
proof -
  have h: "getAccessToken (setTokens [] ''r'' Map.empty) = Some []"
    by (simp add: getAccessToken_def setTokens_def setItem_def getItem_def)
  show ?thesis
    using h empty_token_treated_as_absent [OF h, of "''get''" "''/patients/''" "None :: unit option"]
    by blast
qed

section \<open>The bearer header on outgoing requests\<close>

text \<open>
  C6, as the code has it. Every call hands exactly one request to the transport and
  returns the transport's answer: the interceptor never rejects. The request carries
  \<open>Authorization: Bearer <token>\<close> when a non-empty access token is stored, and no
  \<open>Authorization\<close> header when the token is absent or the empty string; method, path,
  body and content type are as the call built them.
\<close>

theorem request_carries_nonempty_token:
  "apiClient ls net m u d = (outgoing ls m u d, net (outgoing ls m u d))
   \<and> headers (outgoing ls m u d) ''Authorization'' =
        (case getAccessToken ls of
           None \<Rightarrow> None
         | Some t \<Rightarrow> if t \<noteq> [] then Some (''Bearer '' @ t) else None)
   \<and> headers (outgoing ls m u d) ''Content-Type'' = Some ''application/json''
   \<and> http_method (outgoing ls m u d) = m
   \<and> url (outgoing ls m u d) = u
   \<and> data (outgoing ls m u d) = d"
  by (simp add: apiClient_def outgoing_def request_interceptor_def apiClient_config_def
      getAccessToken_def Let_def split: option.split)

text \<open>
  C6 as stated fails for a stored empty token: the token is present in storage, and the
  request goes out without the header.
\<close>

theorem request_token_present_counterexample:
  "getAccessToken (setTokens [] ''r'' Map.empty) \<noteq> None
   \<and> headers (outgoing (setTokens [] ''r'' Map.empty) ''get'' ''/patients/'' (None :: unit option))
        ''Authorization''
       \<noteq> Some (''Bearer '' @ the (getAccessToken (setTokens [] ''r'' Map.empty)))"
  by (simp add: getAccessToken_def setTokens_def setItem_def getItem_def outgoing_def
      request_interceptor_def apiClient_config_def)

section \<open>What the handlers compute\<close>

lemma try_catch_finally_cleanup:
  "try_catch_finally body handler cleanup w =
     cleanup (case body w of (None, w') \<Rightarrow> w' | (Some e, w') \<Rightarrow> handler e w')"
  by (simp add: try_catch_finally_def split: prod.split option.split)

lemma handleSubmit_validate_fst:
  "fst (handleSubmit_validate s w) =
     (\<not> falsy_number (ba_selectedPatient s) \<and> \<not> falsy_number (ba_selectedDoctor s)
      \<and> ba_date s \<noteq> None \<and> trim (ba_timeStr s) \<noteq> [])"
  by (simp add: handleSubmit_validate_def Let_def)

lemma handleSubmit_validate_snd:
  "snd (handleSubmit_validate s w) =
     set_page (\<lambda>p. p\<lparr>
        ba_patientError := (if falsy_number (ba_selectedPatient s) then ''Patient is required'' else []),
        ba_doctorError := (if falsy_number (ba_selectedDoctor s) then ''Doctor is required'' else []),
        ba_dateError := (if ba_date s = None then ''Date is required'' else []),
        ba_timeError := (if trim (ba_timeStr s) = [] then ''Time is required'' else []) \<rparr>) w"
  by (simp add: handleSubmit_validate_def set_page_def Let_def)

lemma onButtonClick_validate_fst:
  "fst (onButtonClick_validate s w) = (trim (lg_email s) \<noteq> [] \<and> trim (lg_password s) \<noteq> [])"
  by (simp add: onButtonClick_validate_def Let_def)


lemma is_digit_digit_char: "is_digit (digit_char n)"
proof -
  have "n mod 10 = 0 \<or> n mod 10 = 1 \<or> n mod 10 = 2 \<or> n mod 10 = 3 \<or> n mod 10 = 4
        \<or> n mod 10 = 5 \<or> n mod 10 = 6 \<or> n mod 10 = 7 \<or> n mod 10 = 8 \<or> n mod 10 = 9"
    by presburger
  then show ?thesis
    unfolding digit_char_def is_digit_def by (elim disjE) simp_all
qed

lemma digit_char_not_T: "digit_char n \<noteq> CHR ''T''" "CHR ''T'' \<noteq> digit_char n"
  using is_digit_digit_char [of n] by (auto simp: is_digit_def)

lemma T_notin_iso_date: "CHR ''T'' \<notin> set (iso_date ymd)"
  by (cases ymd)
     (simp add: iso_date_def year_string_def pad2_def pad4_def pad6_def digit_char_not_T)

lemma split_on_nonempty: "split_on c s \<noteq> []"
  by (induction s) (auto split: list.split)

lemma split_on_prefix:
  "c \<notin> set xs \<Longrightarrow> hd (split_on c (xs @ c # ys)) = xs"
  by (induction xs) (auto simp: split_on_nonempty split: list.split)

lemma formattedDate_TimeValue:
  "toISOString (TimeValue t) = Inr isoString \<Longrightarrow>
     hd (split_on CHR ''T'' isoString) = iso_date (civil_from_days (Day t))"
  using split_on_prefix [OF T_notin_iso_date, of "civil_from_days (Day t)"] by auto


lemma handleSubmit_by_validate:
  "handleSubmit net w =
     (if fst (handleSubmit_validate (page w) w)
      then try_catch_finally (handleSubmit_try net (page w)) handleSubmit_catch
             handleSubmit_finally
             (set_page (\<lambda>s. s\<lparr> ba_submitting := True, ba_error := JStr [] \<rparr>)
                (snd (handleSubmit_validate (page w) w)))
      else snd (handleSubmit_validate (page w) w))"
  by (simp add: handleSubmit_def split: prod.split)

lemma handleSubmit_sent:
  assumes "ba_selectedPatient (page w) = Some p" and "p \<noteq> 0"
    and "ba_selectedDoctor (page w) = Some dr" and "dr \<noteq> 0"
    and "ba_date (page w) = Some (TimeValue t)"
    and "trim (ba_timeStr (page w)) \<noteq> []"
  shows "handleSubmit net w =
     (let req = outgoing (store w) ''post'' ''/patients/appointments''
                  (Some \<lparr> patient = p, doctor = dr,
                          date = iso_date (civil_from_days (Day t)),
                          time = ba_timeStr (page w),
                          reason = (if ba_reason (page w) \<noteq> [] then Some (ba_reason (page w)) else None),
                          status = False \<rparr>);
          cleared = (page w)\<lparr> ba_patientError := [], ba_doctorError := [],
                      ba_dateError := [], ba_timeError := [], ba_submitting := False \<rparr>
      in case net req of
           Inl e \<Rightarrow>
             w\<lparr> page := cleared\<lparr> ba_error :=
                      js_or (js_or (opt_field (response_data e) ''error'')
                                   (opt_field (response_data e) ''message''))
                            (JStr ''Failed to book appointment. Please try again.'') \<rparr>,
                trace := trace w @ [Request req, ConsoleError ''Error booking appointment:''] \<rparr>
         | Inr created \<Rightarrow>
             w\<lparr> page := cleared\<lparr> ba_error := JStr [] \<rparr>,
                trace := trace w @ [Request req, Alert ''Appointment booked successfully!'',
                                    Navigate ''/appointments''] \<rparr>)"
proof -
  have valid: "fst (handleSubmit_validate (page w) w)"
    using assms by (simp add: handleSubmit_validate_fst falsy_number_def)
  show ?thesis
    using assms
    apply (simp only: handleSubmit_by_validate valid if_True handleSubmit_validate_snd)
    apply (simp add: try_catch_finally_def handleSubmit_try_def handleSubmit_catch_def
        handleSubmit_finally_def patientsAPI_appointments_create_def apiClient_def
        set_page_def emit_def falsy_number_def Let_def
        split_on_prefix [OF T_notin_iso_date]
        split: sum.split)
    done
qed



lemma onButtonClick_by_validate:
  "onButtonClick net w =
     (if fst (onButtonClick_validate (page w) w)
      then try_catch_finally (onButtonClick_try net (page w)) onButtonClick_catch
             onButtonClick_finally
             (set_page (\<lambda>s. s\<lparr> lg_isLoading := True \<rparr>)
                (snd (onButtonClick_validate (page w) w)))
      else snd (onButtonClick_validate (page w) w))"
  by (simp add: onButtonClick_def split: prod.split)



lemma loadData_loading:
  "\<not> ba_loading (page (loadData netP netD w))"
  by (simp add: loadData_def try_catch_finally_cleanup loadData_finally_def set_page_def)

lemma civil_20072: "civil_from_days 20072 = (2024, 12, 15)"
  unfolding civil_from_days_def by (simp only: Let_def) simp

lemma iso_2024_12_15: "iso_date (2024, 12, 15) = ''2024-12-15''"
  by (simp add: iso_date_def year_string_def pad2_def pad4_def digit_char_def)

lemma trim_10_00: "trim ''10:00'' = ''10:00''"
  by (simp add: trim_def is_ws_def)

lemma div_between:
  fixes t :: int
  assumes "a * b \<le> t" and "t < a * b + b" and "0 < b"
  shows "t div b = a"
proof -
  have "t = a * b + (t - a * b)" by simp
  moreover have "0 \<le> t - a * b" "t - a * b < b" using assms by simp_all
  ultimately show ?thesis
    by (metis add.commute assms(3) div_mult_self1 div_pos_pos_trivial less_irrefl add.right_neutral)
qed

lemma Day_2024_12_15:
  "1734220800000 \<le> t \<Longrightarrow> t < 1734307200000 \<Longrightarrow> Day t = 20072"
  unfolding Day_def msPerDay_def by (rule div_between) simp_all

section \<open>Booking an appointment\<close>

text \<open>
  Where the booking scenario holds: for a date whose instant lies on the UTC day
  2024-12-15, the day \<open>toISOString\<close> reads, exactly one creation request goes out,
  with the date \<open>2024-12-15\<close>.
\<close>

lemma booking_scenario_utc_day:
  assumes "ba_selectedPatient (page w) = Some 5"
    and "ba_selectedDoctor (page w) = Some 2"
    and "ba_date (page w) = Some (TimeValue t)"
    and "1734220800000 \<le> t" and "t < 1734307200000"
    and "ba_timeStr (page w) = ''10:00''"
    and "ba_reason (page w) = []"
  shows "(let req = outgoing (store w) ''post'' ''/patients/appointments''
                      (Some \<lparr> patient = 5, doctor = 2, date = ''2024-12-15'',
                              time = ''10:00'', reason = None, status = False \<rparr>)
          in trace (handleSubmit net w) =
               trace w @ Request req #
                 (case net req of
                    Inl e \<Rightarrow> [ConsoleError ''Error booking appointment:'']
                  | Inr created \<Rightarrow> [Alert ''Appointment booked successfully!'',
                                      Navigate ''/appointments'']))"
proof -
  have d: "iso_date (civil_from_days (Day t)) = ''2024-12-15''"
    using assms(4,5) by (simp add: Day_2024_12_15 civil_20072 iso_2024_12_15)
  have t: "trim (ba_timeStr (page w)) \<noteq> []"
    using assms(6) by (simp add: trim_10_00)
  have five: "(5::int) \<noteq> 0" and two: "(2::int) \<noteq> 0" by simp_all
  show ?thesis
    unfolding handleSubmit_sent [OF assms(1) five assms(2) two assms(3) t]
    by (simp add: Let_def assms(6,7) d split: sum.split)
qed

lemma Day_2024_12_14:
  "1734134400000 \<le> t \<Longrightarrow> t < 1734220800000 \<Longrightarrow> Day t = 20071"
  unfolding Day_def msPerDay_def by (rule div_between) simp_all

lemma civil_20071: "civil_from_days 20071 = (2024, 12, 14)"
  unfolding civil_from_days_def by (simp only: Let_def) simp

lemma iso_2024_12_14: "iso_date (2024, 12, 14) = ''2024-12-14''"
  by (simp add: iso_date_def year_string_def pad2_def pad4_def digit_char_def)

lemma days_2024_12_15: "days_from_civil 2024 12 15 = 20072"
  unfolding days_from_civil_def by (simp only: Let_def) simp

text \<open>
  C1. The scenario fails on the code one hour east of Greenwich. The date picker hands
  the form the local midnight of the chosen day, here \<open>new Date(2024, 11, 15)\<close>, the time
  value 1734217200000: its local fields read 15 December 2024. With patient 5, doctor 2,
  time \<open>10:00\<close> and an empty reason, \<open>handleSubmit\<close> makes exactly one creation call
  and then navigates, but the body carries the date \<open>2024-12-14\<close>, the UTC day that
  \<open>toISOString\<close> reads, and not \<open>2024-12-15\<close>.
\<close>

theorem booking_local_midnight_sent_as_previous_day:
  "LocalTime (\<lambda>t. 3600000) 1734217200000 = days_from_civil 2024 12 15 * msPerDay
   \<and> getFullYear (\<lambda>t. 3600000) (TimeValue 1734217200000) = Some 2024
   \<and> getMonth (\<lambda>t. 3600000) (TimeValue 1734217200000) = Some 11
   \<and> getDate (\<lambda>t. 3600000) (TimeValue 1734217200000) = Some 15
   \<and> trace (handleSubmit (\<lambda>req. Inr ())
        (mounted
          ((BookAppointment_init :: (unit, unit) booking)
             \<lparr> ba_selectedPatient := Some 5, ba_selectedDoctor := Some 2,
               ba_date := Some (TimeValue 1734217200000), ba_timeStr := ''10:00'' \<rparr>)
          Map.empty)) =
       [Request (outgoing Map.empty ''post'' ''/patients/appointments''
          (Some \<lparr> patient = 5, doctor = 2, date = ''2024-12-14'',
                  time = ''10:00'', reason = None, status = False \<rparr>)),
        Alert ''Appointment booked successfully!'',
        Navigate ''/appointments'']"
proof -
  define w :: "((unit, unit) booking, appointment_data) world"
    where "w = mounted
          (BookAppointment_init
             \<lparr> ba_selectedPatient := Some 5, ba_selectedDoctor := Some 2,
               ba_date := Some (TimeValue 1734217200000), ba_timeStr := ''10:00'' \<rparr>)
          Map.empty"
  have f: "ba_selectedPatient (page w) = Some 5" "(5::int) \<noteq> 0"
    "ba_selectedDoctor (page w) = Some 2" "(2::int) \<noteq> 0"
    "ba_date (page w) = Some (TimeValue 1734217200000)" "trim (ba_timeStr (page w)) \<noteq> []"
    by (simp_all add: w_def mounted_def BookAppointment_init_def trim_10_00)
  have g: "ba_timeStr (page w) = ''10:00''" "ba_reason (page w) = []" "trace w = []"
    "store w = Map.empty"
    by (simp_all add: w_def mounted_def BookAppointment_init_def)
  have utc: "iso_date (civil_from_days (Day 1734217200000)) = ''2024-12-14''"
    by (simp add: Day_2024_12_14 civil_20071 iso_2024_12_14)
  have loc: "LocalTime (\<lambda>t. 3600000) 1734217200000 = 1734220800000"
    by (simp add: LocalTime_def)
  have fields: "getFullYear (\<lambda>t. 3600000) (TimeValue 1734217200000) = Some 2024"
    "getMonth (\<lambda>t. 3600000) (TimeValue 1734217200000) = Some 11"
    "getDate (\<lambda>t. 3600000) (TimeValue 1734217200000) = Some 15"
    by (simp_all add: loc Day_2024_12_15 civil_20072)
  have midnight: "LocalTime (\<lambda>t. 3600000) 1734217200000 = days_from_civil 2024 12 15 * msPerDay"
    by (simp add: loc days_2024_12_15 msPerDay_def)
  have sent: "trace (handleSubmit (\<lambda>req. Inr ()) w) =
       [Request (outgoing Map.empty ''post'' ''/patients/appointments''
          (Some \<lparr> patient = 5, doctor = 2, date = ''2024-12-14'',
                  time = ''10:00'', reason = None, status = False \<rparr>)),
        Alert ''Appointment booked successfully!'',
        Navigate ''/appointments'']"
    unfolding handleSubmit_sent [OF f] by (simp add: Let_def g utc)
  show ?thesis
    unfolding w_def [symmetric] using midnight fields sent by blast
qed








section \<open>Failure messages\<close>



lemma trim_examples: "trim ''a@b.c'' = ''a@b.c''" "trim ''pw'' = ''pw''"
  by (simp_all add: trim_def is_ws_def)



section \<open>The busy flag\<close>

text \<open>
  C9. Whenever a page handler gets as far as its API call (the login and booking forms
  after passing validation, the patient list and the booking page's initial load
  always), the page's busy flag is false when the handler is done, whatever the
  transport answers, and the final state is an output of the handler's \<open>finally\<close>
  block.
\<close>

theorem busy_flag_reset:
  "(trim (lg_email (page wl)) \<noteq> [] \<and> trim (lg_password (page wl)) \<noteq> []
      \<longrightarrow> \<not> lg_isLoading (page (onButtonClick netL wl))
          \<and> (\<exists>w'. onButtonClick netL wl = onButtonClick_finally w'))
   \<and> (\<not> falsy_number (ba_selectedPatient (page wb)) \<and> \<not> falsy_number (ba_selectedDoctor (page wb))
        \<and> ba_date (page wb) \<noteq> None \<and> trim (ba_timeStr (page wb)) \<noteq> []
      \<longrightarrow> \<not> ba_submitting (page (handleSubmit netB wb))
          \<and> (\<exists>w'. handleSubmit netB wb = handleSubmit_finally w'))
   \<and> \<not> pt_loading (page (fetchPatients netP wp))
   \<and> (\<exists>w'. fetchPatients netP wp = fetchPatients_finally w')
   \<and> \<not> ba_loading (page (loadData netP' netD wb'))
   \<and> (\<exists>w'. loadData netP' netD wb' = loadData_finally w')"
proof -
  have login: "\<not> lg_isLoading (page (onButtonClick netL wl))
          \<and> (\<exists>w'. onButtonClick netL wl = onButtonClick_finally w')"
    if "trim (lg_email (page wl)) \<noteq> []" "trim (lg_password (page wl)) \<noteq> []"
  proof -
    have "fst (onButtonClick_validate (page wl) wl)"
      using that by (simp add: onButtonClick_validate_fst)
    then obtain w' where "onButtonClick netL wl = onButtonClick_finally w'"
      by (simp add: onButtonClick_by_validate try_catch_finally_cleanup)
    then show ?thesis by (auto simp: onButtonClick_finally_def set_page_def)
  qed
  have book: "\<not> ba_submitting (page (handleSubmit netB wb))
          \<and> (\<exists>w'. handleSubmit netB wb = handleSubmit_finally w')"
    if "\<not> falsy_number (ba_selectedPatient (page wb))"
       "\<not> falsy_number (ba_selectedDoctor (page wb))"
       "ba_date (page wb) \<noteq> None" "trim (ba_timeStr (page wb)) \<noteq> []"
  proof -
    have "fst (handleSubmit_validate (page wb) wb)"
      using that by (simp add: handleSubmit_validate_fst)
    then obtain w' where "handleSubmit netB wb = handleSubmit_finally w'"
      by (simp add: handleSubmit_by_validate try_catch_finally_cleanup)
    then show ?thesis by (auto simp: handleSubmit_finally_def set_page_def)
  qed
  obtain w1 where f: "fetchPatients netP wp = fetchPatients_finally w1"
    by (simp add: fetchPatients_def try_catch_finally_cleanup)
  then have fetch: "\<not> pt_loading (page (fetchPatients netP wp))"
    by (simp add: fetchPatients_finally_def set_page_def)
  obtain w2 where l: "loadData netP' netD wb' = loadData_finally w2"
    by (simp add: loadData_def try_catch_finally_cleanup)
  then have load: "\<not> ba_loading (page (loadData netP' netD wb'))"
    by (simp add: loadData_finally_def set_page_def)
  from login book f fetch l load show ?thesis by blast
qed

text \<open>Login and booking, each with a failing and a succeeding transport.\<close>

theorem busy_flag_reset_witness:
  "(let wl = mounted (Login_init \<lparr> lg_email := ''a@b.c'', lg_password := ''pw'' \<rparr>) Map.empty;
        wb = mounted
               ((BookAppointment_init :: (unit, unit) booking)
                  \<lparr> ba_selectedPatient := Some 5, ba_selectedDoctor := Some 2,
                    ba_date := Some (TimeValue 1734220800000), ba_timeStr := ''10:00'' \<rparr>)
               Map.empty
    in \<not> lg_isLoading (page (onButtonClick (\<lambda>req. Inl (AxiosError None)) wl))
       \<and> \<not> lg_isLoading (page (onButtonClick
             (\<lambda>req. Inr \<lparr> access = ''a'', refresh = ''r'' \<rparr>) wl))
       \<and> \<not> ba_submitting (page (handleSubmit (\<lambda>req. Inl (AxiosError None) :: thrown + unit) wb))
       \<and> \<not> ba_submitting (page (handleSubmit (\<lambda>req. Inr ()) wb)))"
proof -
  define wl :: "(login, credentials) world"
    where "wl = mounted (Login_init \<lparr> lg_email := ''a@b.c'', lg_password := ''pw'' \<rparr>) Map.empty"
  define wb :: "((unit, unit) booking, appointment_data) world"
    where "wb = mounted
               (BookAppointment_init
                  \<lparr> ba_selectedPatient := Some 5, ba_selectedDoctor := Some 2,
                    ba_date := Some (TimeValue 1734220800000), ba_timeStr := ''10:00'' \<rparr>)
               Map.empty"
  define wp :: "(unit patients_page, unit) world" where "wp = mounted Patients_init Map.empty"
  define netP :: "(unit, unit PatientsResponse) transport"
    where "netP = (\<lambda>req. Inl (AxiosError None))"
  define netP' :: "(appointment_data, unit PatientsResponse) transport"
    where "netP' = (\<lambda>req. Inl (AxiosError None))"
  define netD :: "(appointment_data, unit DoctorsResponse) transport"
    where "netD = (\<lambda>req. Inl (AxiosError None))"
  have fl: "trim (lg_email (page wl)) \<noteq> []" "trim (lg_password (page wl)) \<noteq> []"
    by (simp_all add: wl_def mounted_def Login_init_def trim_examples)
  have fb: "\<not> falsy_number (ba_selectedPatient (page wb))"
    "\<not> falsy_number (ba_selectedDoctor (page wb))"
    "ba_date (page wb) \<noteq> None" "trim (ba_timeStr (page wb)) \<noteq> []"
    by (simp_all add: wb_def mounted_def BookAppointment_init_def trim_10_00 falsy_number_def)
  have a: "\<not> lg_isLoading (page (onButtonClick (\<lambda>req. Inl (AxiosError None)) wl))"
    using busy_flag_reset [of wl "\<lambda>req. Inl (AxiosError None)" wb "\<lambda>req. Inr ()" netP wp netP' netD wb,
        THEN conjunct1] fl
    by simp
  have b: "\<not> lg_isLoading (page (onButtonClick
             (\<lambda>req. Inr \<lparr> access = ''a'', refresh = ''r'' \<rparr>) wl))"
    using busy_flag_reset [of wl "\<lambda>req. Inr \<lparr> access = ''a'', refresh = ''r'' \<rparr>"
        wb "\<lambda>req. Inr ()" netP wp netP' netD wb, THEN conjunct1] fl
    by simp
  have c: "\<not> ba_submitting (page (handleSubmit (\<lambda>req. Inl (AxiosError None) :: thrown + unit) wb))"
    using busy_flag_reset [of wl "\<lambda>req. Inl (AxiosError None)" wb "\<lambda>req. Inl (AxiosError None) :: thrown + unit"
        netP wp netP' netD wb, THEN conjunct2, THEN conjunct1] fb
    by simp
  have d: "\<not> ba_submitting (page (handleSubmit (\<lambda>req. Inr ()) wb))"
    using busy_flag_reset [of wl "\<lambda>req. Inl (AxiosError None)" wb "\<lambda>req. Inr ()"
        netP wp netP' netD wb, THEN conjunct2, THEN conjunct1] fb
    by simp
  show ?thesis
    unfolding Let_def wl_def [symmetric] wb_def [symmetric]
    using a b c d by blast
qed

section \<open>Listings\<close>

text \<open>
  C7, as the code has it. \<open>patientsAPI.getAll\<close> and \<open>doctorsAPI.getAll\<close> return exactly
  what the transport answered to their one request; the client neither computes nor
  checks the count. So the count equals the length of the list whenever that holds of
  the body the backend sent, and a repeated call against the same storage and the same
  backend answer returns the same result.
\<close>

theorem getAll_returns_body:
  "snd (patientsAPI_getAll ls netP) = netP (outgoing ls ''get'' ''/patients/'' None)
   \<and> snd (doctorsAPI_getAll ls netD) = netD (outgoing ls ''get'' ''/staff/doctors'' None)
   \<and> (netP (outgoing ls ''get'' ''/patients/'' None) = Inr bp
        \<and> patient_count bp = int (length (patients bp))
      \<longrightarrow> (\<exists>r. snd (patientsAPI_getAll ls netP) = Inr r
               \<and> patient_count r = int (length (patients r))))
   \<and> (netD (outgoing ls ''get'' ''/staff/doctors'' None) = Inr bd
        \<and> doctor_count bd = int (length (doctors bd))
      \<longrightarrow> (\<exists>r. snd (doctorsAPI_getAll ls netD) = Inr r
               \<and> doctor_count r = int (length (doctors r))))"
  by (simp add: patientsAPI_getAll_def doctorsAPI_getAll_def apiClient_def Let_def)

text \<open>Bodies whose count matches their list.\<close>

theorem getAll_returns_body_witness:
  "(\<exists>r. snd (patientsAPI_getAll Map.empty
            (\<lambda>req :: unit request_config. Inr \<lparr> patients = [(), ()], patient_count = 2 \<rparr>)) = Inr r
        \<and> patient_count r = int (length (patients r)))
   \<and> (\<exists>r. snd (doctorsAPI_getAll Map.empty
            (\<lambda>req :: unit request_config. Inr \<lparr> doctors = [()], doctor_count = 1 \<rparr>)) = Inr r
        \<and> doctor_count r = int (length (doctors r)))"
  using getAll_returns_body [of Map.empty
      "\<lambda>req :: unit request_config. Inr \<lparr> patients = [(), ()], patient_count = 2 \<rparr>"
      "\<lambda>req :: unit request_config. Inr \<lparr> doctors = [()], doctor_count = 1 \<rparr>"
      "\<lparr> patients = [(), ()], patient_count = 2 \<rparr>"
      "\<lparr> doctors = [()], doctor_count = 1 \<rparr>"]
  by simp

text \<open>
  C7 as stated fails for a successful response whose count differs from the length of
  its list: the result is that body, unchanged.
\<close>

theorem getAll_count_counterexample:
  "(case snd (patientsAPI_getAll Map.empty
        (\<lambda>req :: unit request_config.
            Inr \<lparr> patients = ([] :: unit list), patient_count = 1 \<rparr>)) of
      Inl e \<Rightarrow> False
    | Inr r \<Rightarrow> patient_count r \<noteq> int (length (patients r)))
   \<and> (case snd (doctorsAPI_getAll Map.empty
        (\<lambda>req :: unit request_config.
            Inr \<lparr> doctors = ([] :: unit list), doctor_count = 1 \<rparr>)) of
      Inl e \<Rightarrow> False
    | Inr r \<Rightarrow> doctor_count r \<noteq> int (length (doctors r)))"
  by (simp add: patientsAPI_getAll_def doctorsAPI_getAll_def apiClient_def Let_def)

section \<open>Age from the birth date\<close>

lemma days_1990_06_15: "days_from_civil 1990 6 15 * msPerDay = 645408000000"
  unfolding days_from_civil_def msPerDay_def by (simp only: Let_def) simp

lemma civil_7470: "civil_from_days 7470 = (1990, 6, 15)"
  unfolding civil_from_days_def by (simp only: Let_def) simp

lemma civil_7469: "civil_from_days 7469 = (1990, 6, 14)"
  unfolding civil_from_days_def by (simp only: Let_def) simp

lemma civil_19888: "civil_from_days 19888 = (2024, 6, 14)"
  unfolding civil_from_days_def by (simp only: Let_def) simp

lemma Day_birth_east:
  assumes "0 \<le> z" and "z < 86400000"
  shows "Day (645408000000 + z) = 7470"
  unfolding Day_def msPerDay_def using assms by (intro div_between) simp_all

lemma Day_birth_west:
  assumes "- 86400000 \<le> z" and "z < 0"
  shows "Day (645408000000 + z) = 7469"
  unfolding Day_def msPerDay_def using assms by (intro div_between) simp_all

lemma calculateAge_fields:
  assumes "getFullYear ltza (TimeValue now) = Some y1"
    and "getMonth ltza (TimeValue now) = Some m1"
    and "getDate ltza (TimeValue now) = Some d1"
    and "parseDate dob = TimeValue b"
    and "getFullYear ltza (TimeValue b) = Some y0"
    and "getMonth ltza (TimeValue b) = Some m0"
    and "getDate ltza (TimeValue b) = Some d0"
  shows "calculateAge parseDate ltza now dob =
           Some (if m1 < m0 \<or> (m1 = m0 \<and> d1 < d0) then y1 - y0 - 1 else y1 - y0)"
  unfolding calculateAge_def
  by (simp only: Let_def assms) (simp add: num_sub_def num_lt_def num_eq_def)

text \<open>
  Where the age scenario holds: at or east of Greenwich the birth instant of
  \<open>1990-06-15\<close> reads locally as 15 June 1990, and the age is the difference of the
  years, less one until the local date reaches 15 June.
\<close>

lemma calculateAge_at_or_east_of_Greenwich:
  assumes "parseDate ''1990-06-15'' = TimeValue (days_from_civil 1990 6 15 * msPerDay)"
    and "0 \<le> ltza 645408000000" and "ltza 645408000000 < 86400000"
    and "getFullYear ltza (TimeValue now) = Some y1"
    and "getMonth ltza (TimeValue now) = Some m1"
    and "getDate ltza (TimeValue now) = Some d1"
  shows "calculateAge parseDate ltza now ''1990-06-15'' =
           Some (if m1 < 5 \<or> (m1 = 5 \<and> d1 < 15) then y1 - 1990 - 1 else y1 - 1990)"
proof -
  have p: "parseDate ''1990-06-15'' = TimeValue 645408000000"
    using assms(1) by (simp add: days_1990_06_15)
  have b: "getFullYear ltza (TimeValue 645408000000) = Some 1990"
    "getMonth ltza (TimeValue 645408000000) = Some 5"
    "getDate ltza (TimeValue 645408000000) = Some 15"
    using Day_birth_east [OF assms(2,3)] by (simp_all add: LocalTime_def civil_7470)
  show ?thesis
    by (rule calculateAge_fields
          [where parseDate = parseDate and dob = "''1990-06-15''", OF assms(4-6) p b])
qed

text \<open>
  C2. The scenario fails on the code west of Greenwich. \<open>new Date('1990-06-15')\<close> is
  midnight UTC of the birth date, but the function reads it back with the local
  getters: in a zone behind UTC (by up to a day) the birth instant reads as 14 June
  1990. On the system date 2024-06-14 the birthday then counts as reached, and
  \<open>calculateAge\<close> returns 34, not 33.
\<close>

theorem calculateAge_west_of_Greenwich:
  assumes "parseDate ''1990-06-15'' = TimeValue (days_from_civil 1990 6 15 * msPerDay)"
    and "- 86400000 \<le> ltza 645408000000" and "ltza 645408000000 < 0"
    and "getFullYear ltza (TimeValue now) = Some 2024"
    and "getMonth ltza (TimeValue now) = Some 5"
    and "getDate ltza (TimeValue now) = Some 14"
  shows "getDate ltza (parseDate ''1990-06-15'') = Some 14
     \<and> calculateAge parseDate ltza now ''1990-06-15'' = Some 34"
proof -
  have p: "parseDate ''1990-06-15'' = TimeValue 645408000000"
    using assms(1) by (simp add: days_1990_06_15)
  have b: "getFullYear ltza (TimeValue 645408000000) = Some 1990"
    "getMonth ltza (TimeValue 645408000000) = Some 5"
    "getDate ltza (TimeValue 645408000000) = Some 14"
    using Day_birth_west [OF assms(2,3)] by (simp_all add: LocalTime_def civil_7469)
  have "calculateAge parseDate ltza now ''1990-06-15'' = Some 34"
    using calculateAge_fields
            [where parseDate = parseDate and dob = "''1990-06-15''", OF assms(4-6) p b]
    by simp
  with p b(3) show ?thesis by simp
qed

text \<open>
  Five hours behind UTC, at local noon of 2024-06-14 (17:00 UTC, the time value
  1718384400000), with a parser that answers the birth instant.
\<close>

theorem calculateAge_west_of_Greenwich_witness:
  "getFullYear (\<lambda>t. - 18000000) (TimeValue 1718384400000) = Some 2024
   \<and> getMonth (\<lambda>t. - 18000000) (TimeValue 1718384400000) = Some 5
   \<and> getDate (\<lambda>t. - 18000000) (TimeValue 1718384400000) = Some 14
   \<and> calculateAge (\<lambda>s. TimeValue (days_from_civil 1990 6 15 * msPerDay))
        (\<lambda>t. - 18000000) 1718384400000 ''1990-06-15'' = Some 34"
proof -
  have n: "getFullYear (\<lambda>t. - 18000000) (TimeValue 1718384400000) = Some 2024"
    "getMonth (\<lambda>t. - 18000000) (TimeValue 1718384400000) = Some 5"
    "getDate (\<lambda>t. - 18000000) (TimeValue 1718384400000) = Some 14"
    by (simp_all add: LocalTime_def Day_def msPerDay_def civil_19888)
  have z: "- 86400000 \<le> (- 18000000 :: int)" "(- 18000000 :: int) < 0" by simp_all
  have "calculateAge (\<lambda>s. TimeValue (days_from_civil 1990 6 15 * msPerDay))
        (\<lambda>t. - 18000000) 1718384400000 ''1990-06-15'' = Some 34"
    using calculateAge_west_of_Greenwich
      [of "\<lambda>s. TimeValue (days_from_civil 1990 6 15 * msPerDay)" "\<lambda>t. - 18000000"
        1718384400000, OF refl z n]
    by simp
  with n show ?thesis by blast
qed

end
